theory Spec2Isabelle
  imports Main "HOL-Library.Word"
begin

section \<open>Package execution: data model\<close>

text \<open>
  The Go types of package \<open>execution\<close> and of its wire API, as \<open>service.go\<close> uses
  them. A Go pointer result that may be \<open>nil\<close> is an \<open>option\<close>; a Go \<open>error\<close>
  result is an \<open>error option\<close> (\<open>None\<close> for \<open>nil\<close>). \<open>time.Now()\<close> is real time:
  the \<open>Timestamp\<close> field of an event is left out of the event record.
\<close>

type_synonym Status = string

text \<open>
  \<open>ErrProcessNotFound\<close> is the package's sentinel error value. \<open>Errorf\<close> is a value
  made by \<open>fmt.Errorf\<close> at the call site, carrying its message. \<open>Failure\<close> is any
  other error, as the executor or a process reports it.
\<close>

datatype error = ErrProcessNotFound | Errorf string | Failure string

type_synonym signal = int

definition os_Kill :: signal where
  "os_Kill = 9"

text \<open>
  A process is an interface value in Go: \<open>ID()\<close>, \<open>Pid()\<close>, \<open>Status()\<close>,
  \<open>Signal(sig)\<close> and \<open>Wait()\<close>. The record holds what each method returns; \<open>Wait\<close>
  is taken at the point where it returns, with its status code or its error.
\<close>

record Process =
  Process_ID :: string
  Process_Pid :: int
  Process_Status :: Status
  Process_Signal :: "signal \<Rightarrow> error option"
  Process_Wait :: "error + 32 word"

text \<open>
  Modelled from the spec: the struct \<open>Container\<close> is declared outside \<open>service.go\<close>.
  Its process list is the ordered sequence of the data model, element 0 being the init
  process; the method \<open>Processes()\<close> and the field \<open>processes\<close> both read it.
\<close>

record Container =
  Container_ID :: string
  Container_Bundle :: string
  Container_Status :: Status
  Container_processes :: "Process list"

definition Processes :: "Container \<Rightarrow> Process list" where
  "Processes c = Container_processes c"

text \<open>
  Modelled from the spec: \<open>Container.GetProcess(id)\<close> is declared outside \<open>service.go\<close>;
  it yields the process whose ID matches, or \<open>nil\<close> when none does.
\<close>

definition Container_GetProcess :: "Container \<Rightarrow> string \<Rightarrow> Process option" where
  "Container_GetProcess c pid = find (\<lambda>p. Process_ID p = pid) (Container_processes c)"

text \<open>
  The declarations of the repository that \<open>service.go\<close> uses by name only, taken as a
  parameter: the status constants \<open>Stopped\<close> and \<open>Deleted\<close>, the reserved status code
  \<open>UnknownStatusCode\<close>, and the values of the wire enum \<open>api.Status\<close>.
\<close>

record Decls =
  Stopped :: Status
  Deleted :: Status
  UnknownStatusCode :: "32 word"
  Status_CREATED :: "32 word"
  Status_RUNNING :: "32 word"
  Status_STOPPED :: "32 word"
  Status_PAUSED :: "32 word"

record ContainerEvent =
  Event_ID :: string
  Event_Action :: string

record ContainerExitEvent = ContainerEvent +
  Event_PID :: string
  Event_StatusCode :: "32 word"

record CreateOpts =
  co_Bundle :: string
  co_Console :: string
  co_Stdin :: string
  co_Stdout :: string
  co_Stderr :: string

record specs_Box =
  Height :: nat
  Width :: nat

text \<open>
  \<open>specs.Process\<close> of the OCI runtime specification, with the fields that
  \<open>StartProcess\<close> sets; every other field of the struct keeps its zero value.
\<close>

record specs_Process =
  Terminal :: bool
  ConsoleSize :: specs_Box
  Args :: "string list"
  Env :: "string list"
  Cwd :: string
  NoNewPrivileges :: bool

record StartProcessOpts =
  spo_ID :: string
  spo_Spec :: specs_Process
  spo_Console :: string
  spo_Stdin :: string
  spo_Stdout :: string
  spo_Stderr :: string

record Executor =
  ex_List :: "error + Container list"
  ex_Load :: "string \<Rightarrow> error + Container"
  ex_Create :: "string \<Rightarrow> CreateOpts \<Rightarrow> error + Container"
  ex_Delete :: "Container \<Rightarrow> error option"
  ex_Pause :: "Container \<Rightarrow> error option"
  ex_Resume :: "Container \<Rightarrow> error option"
  ex_Start :: "Container \<Rightarrow> error option"
  ex_StartProcess :: "Container \<Rightarrow> StartProcessOpts \<Rightarrow> error + Process"
  ex_DeleteProcess :: "Container \<Rightarrow> string \<Rightarrow> error option"

record Service =
  Service_executor :: Executor

subsection \<open>Wire messages\<close>

record api_Container =
  ac_ID :: string
  ac_BundlePath :: string
  ac_Status :: "32 word"

record api_Process =
  ap_ID :: string
  ap_Pid :: int
  ap_Args :: "string list"
  ap_Env :: "string list"
  ap_Cwd :: string
  ap_Terminal :: bool

record CreateContainerRequest =
  ccr_ID :: string
  ccr_BundlePath :: string
  ccr_Console :: string
  ccr_Stdin :: string
  ccr_Stdout :: string
  ccr_Stderr :: string

record CreateContainerResponse =
  ccr_Container :: api_Container
  ccr_InitProcess :: api_Process

text \<open>
  The \<open>Process\<close> field of a \<open>StartProcessRequest\<close> is a pointer to a message:
  \<open>None\<close> is the request that carries no process message.
\<close>

record StartProcessRequest =
  spr_ContainerID :: string
  spr_Process :: "api_Process option"
  spr_Console :: string
  spr_Stdin :: string
  spr_Stdout :: string
  spr_Stderr :: string

record ProcessRequest =
  pr_ContainerID :: string
  pr_ProcessID :: string
  pr_Signal :: int

datatype Empty = Empty

definition emptyResponse :: "Empty option" where
  "emptyResponse = Some Empty"

subsection \<open>Effects\<close>

text \<open>
  What a call does beyond returning, in the order in which it does it: a signal sent to
  a process, an event posted on a topic, a monitor goroutine started for a process, and
  the executor calls whose option structs the service builds.
\<close>

datatype effect =
    Signalled string string signal
  | Published string ContainerExitEvent
  | Monitor Container Process
  | Exec_Create string CreateOpts
  | Exec_StartProcess Container StartProcessOpts

datatype 'a outcome = Return 'a | Panic

section \<open>Package execution: the service\<close>

text \<open>
  Modelled from the spec: the format constant \<open>containerProcessEventsTopicFormat\<close> is
  declared outside \<open>service.go\<close>; the topic of a process-level event has the shape
  \<open>containers.<ID>.processes.<ProcessID>\<close>.
\<close>

definition GetContainerProcessEventTopic :: "string \<Rightarrow> string \<Rightarrow> string" where
  "GetContainerProcessEventTopic containerID processID =
     ''containers.'' @ containerID @ ''.processes.'' @ processID"

definition exit_event :: "string \<Rightarrow> string \<Rightarrow> 32 word \<Rightarrow> ContainerExitEvent" where
  "exit_event cid pid sc =
     \<lparr>Event_ID = cid, Event_Action = ''exit'', Event_PID = pid, Event_StatusCode = sc\<rparr>"

text \<open>
  \<open>monitorProcess\<close> starts a goroutine and returns. \<open>monitorProcess_task\<close> is the body
  of that goroutine: what it publishes once \<open>Wait()\<close> has returned.
\<close>

definition monitorProcess_task :: "Container \<Rightarrow> Process \<Rightarrow> effect list" where
  "monitorProcess_task container process =
     (case Process_Wait process of
        Inr status \<Rightarrow>
          [Published (GetContainerProcessEventTopic (Container_ID container) (Process_ID process))
             (exit_event (Container_ID container) (Process_ID process) status)]
      | Inl err \<Rightarrow> [])"

definition monitorProcess :: "Container \<Rightarrow> Process \<Rightarrow> effect list" where
  "monitorProcess container process = [Monitor container process]"

text \<open>
  The body of the inner loop of \<open>New\<close>, for one process \<open>p\<close> of the container \<open>c\<close>
  whose status was read into \<open>status\<close>.
\<close>

definition New_process :: "Decls \<Rightarrow> Container \<Rightarrow> Status \<Rightarrow> Process \<Rightarrow> effect list" where
  "New_process K c status p =
     (if status = Stopped K \<or> status = Deleted K then
        (if Process_Status p \<noteq> Stopped K
         then [Signalled (Container_ID c) (Process_ID p) os_Kill] else []) @
        (let sc = (case Process_Wait p of Inr sc \<Rightarrow> sc | Inl err \<Rightarrow> UnknownStatusCode K)
         in [Published (GetContainerProcessEventTopic (Container_ID c) (Process_ID p))
               (exit_event (Container_ID c) (Process_ID p) sc)])
      else monitorProcess c p)"

text \<open>
  The body of the outer loop of \<open>New\<close>. \<open>processes[1:]\<close> and \<open>processes[0]\<close> panic on
  an empty slice. The reordered slice is bound to the local \<open>processes\<close>; the inner loop
  ranges over the field \<open>c.processes\<close>.
\<close>

definition New_container :: "Decls \<Rightarrow> Container \<Rightarrow> effect list outcome" where
  "New_container K c =
     (let status = Container_Status c;
          processes = Processes c
      in case processes of
           [] \<Rightarrow> Panic
         | p0 # rest \<Rightarrow>
             (let processes = rest @ [p0]
              in Return (concat (map (New_process K c status) (Container_processes c)))))"

fun New_loop :: "Decls \<Rightarrow> Container list \<Rightarrow> unit outcome \<times> effect list" where
  "New_loop K [] = (Return (), [])"
| "New_loop K (c # cs) =
     (case New_container K c of
        Panic \<Rightarrow> (Panic, [])
      | Return effs \<Rightarrow> (case New_loop K cs of (r, effs') \<Rightarrow> (r, effs @ effs')))"

definition New :: "Decls \<Rightarrow> Executor \<Rightarrow> (Service option \<times> error option) outcome \<times> effect list" where
  "New K executor =
     (let svc = \<lparr>Service_executor = executor\<rparr>
      in case ex_List executor of
           Inl err \<Rightarrow> (Return (None, Some err), [])
         | Inr containers \<Rightarrow>
             (case New_loop K containers of
                (Panic, effs) \<Rightarrow> (Panic, effs)
              | (Return u, effs) \<Rightarrow> (Return (Some svc, None), effs)))"

definition toGRPCContainer :: "Decls \<Rightarrow> Container \<Rightarrow> api_Container" where
  "toGRPCContainer K container =
     (let c = \<lparr>ac_ID = Container_ID container, ac_BundlePath = Container_Bundle container,
                ac_Status = 0\<rparr>;
          status = Container_Status container
      in if status = ''created'' then c\<lparr>ac_Status := Status_CREATED K\<rparr>
         else if status = ''running'' then c\<lparr>ac_Status := Status_RUNNING K\<rparr>
         else if status = ''stopped'' then c\<lparr>ac_Status := Status_STOPPED K\<rparr>
         else if status = ''paused'' then c\<lparr>ac_Status := Status_PAUSED K\<rparr>
         else c)"

text \<open>\<open>toGRPCProcess\<close> sets \<open>ID\<close> and \<open>Pid\<close>; the other fields keep their zero values.\<close>

definition toGRPCProcess :: "Process \<Rightarrow> api_Process" where
  "toGRPCProcess process =
     \<lparr>ap_ID = Process_ID process, ap_Pid = Process_Pid process, ap_Args = [], ap_Env = [],
      ap_Cwd = [], ap_Terminal = False\<rparr>"

definition toGRPCProcesses :: "Process list \<Rightarrow> api_Process list" where
  "toGRPCProcesses processes = map toGRPCProcess processes"

definition Create ::
  "Decls \<Rightarrow> Service \<Rightarrow> CreateContainerRequest \<Rightarrow>
     (CreateContainerResponse option \<times> error option) outcome \<times> effect list" where
  "Create K s r =
     (let opts = \<lparr>co_Bundle = ccr_BundlePath r, co_Console = ccr_Console r,
                   co_Stdin = ccr_Stdin r, co_Stdout = ccr_Stdout r, co_Stderr = ccr_Stderr r\<rparr>
      in case ex_Create (Service_executor s) (ccr_ID r) opts of
           Inl err \<Rightarrow> (Return (None, Some err), [Exec_Create (ccr_ID r) opts])
         | Inr container \<Rightarrow>
             (case Processes container of
                [] \<Rightarrow> (Panic, [Exec_Create (ccr_ID r) opts])
              | initProcess # rest \<Rightarrow>
                  (Return (Some \<lparr>ccr_Container = toGRPCContainer K container,
                                 ccr_InitProcess = toGRPCProcess initProcess\<rparr>, None),
                   Exec_Create (ccr_ID r) opts # monitorProcess container initProcess)))"

definition Delete :: "Service \<Rightarrow> string \<Rightarrow> Empty option \<times> error option" where
  "Delete s rID =
     (case ex_Load (Service_executor s) rID of
        Inl err \<Rightarrow> (emptyResponse, Some err)
      | Inr container \<Rightarrow>
          (case ex_Delete (Service_executor s) container of
             Some err \<Rightarrow> (emptyResponse, Some err)
           | None \<Rightarrow> (emptyResponse, None)))"

definition List_containers :: "Decls \<Rightarrow> Service \<Rightarrow> api_Container list option \<times> error option" where
  "List_containers K s =
     (case ex_List (Service_executor s) of
        Inl err \<Rightarrow> (None, Some err)
      | Inr containers \<Rightarrow> (Some (map (toGRPCContainer K) containers), None))"

definition Get :: "Decls \<Rightarrow> Service \<Rightarrow> string \<Rightarrow> api_Container option \<times> error option" where
  "Get K s rID =
     (case ex_Load (Service_executor s) rID of
        Inl err \<Rightarrow> (None, Some err)
      | Inr container \<Rightarrow> (Some (toGRPCContainer K container), None))"

definition Update :: "Service \<Rightarrow> string \<Rightarrow> Empty option \<times> error option" where
  "Update s rID = (emptyResponse, None)"

definition Pause :: "Service \<Rightarrow> string \<Rightarrow> Empty option \<times> error option" where
  "Pause s rID =
     (case ex_Load (Service_executor s) rID of
        Inl err \<Rightarrow> (None, Some err)
      | Inr container \<Rightarrow> (emptyResponse, ex_Pause (Service_executor s) container))"

definition Resume :: "Service \<Rightarrow> string \<Rightarrow> Empty option \<times> error option" where
  "Resume s rID =
     (case ex_Load (Service_executor s) rID of
        Inl err \<Rightarrow> (None, Some err)
      | Inr container \<Rightarrow> (emptyResponse, ex_Resume (Service_executor s) container))"

definition Start :: "Service \<Rightarrow> string \<Rightarrow> Empty option \<times> error option" where
  "Start s rID =
     (case ex_Load (Service_executor s) rID of
        Inl err \<Rightarrow> (None, Some err)
      | Inr container \<Rightarrow> (emptyResponse, ex_Start (Service_executor s) container))"

text \<open>
  \<open>StartProcess\<close> reads the fields of \<open>r.Process\<close> without a check, after the
  container has loaded: a request without a process message panics there.
\<close>

definition StartProcess ::
  "Service \<Rightarrow> StartProcessRequest \<Rightarrow>
     (api_Process option \<times> error option) outcome \<times> effect list" where
  "StartProcess s r =
     (case ex_Load (Service_executor s) (spr_ContainerID r) of
        Inl err \<Rightarrow> (Return (None, Some err), [])
      | Inr container \<Rightarrow>
          (case spr_Process r of
             None \<Rightarrow> (Panic, [])
           | Some rProcess \<Rightarrow>
               (let spec = \<lparr>Terminal = ap_Terminal rProcess,
                             ConsoleSize = \<lparr>Height = 80, Width = 80\<rparr>,
                             Args = ap_Args rProcess,
                             Env = ap_Env rProcess,
                             Cwd = ap_Cwd rProcess,
                             NoNewPrivileges = True\<rparr>;
                    opts = \<lparr>spo_ID = ap_ID rProcess, spo_Spec = spec,
                             spo_Console = spr_Console r, spo_Stdin = spr_Stdin r,
                             spo_Stdout = spr_Stdout r, spo_Stderr = spr_Stderr r\<rparr>
                in case ex_StartProcess (Service_executor s) container opts of
                     Inl err \<Rightarrow> (Return (None, Some err), [Exec_StartProcess container opts])
                   | Inr process \<Rightarrow>
                       (Return (Some (toGRPCProcess process), None),
                        Exec_StartProcess container opts # monitorProcess container process))))"

definition GetProcess :: "Service \<Rightarrow> ProcessRequest \<Rightarrow> api_Process option \<times> error option" where
  "GetProcess s r =
     (case ex_Load (Service_executor s) (pr_ContainerID r) of
        Inl err \<Rightarrow> (None, Some err)
      | Inr container \<Rightarrow>
          (case Container_GetProcess container (pr_ProcessID r) of
             None \<Rightarrow> (None, Some ErrProcessNotFound)
           | Some process \<Rightarrow> (Some (toGRPCProcess process), None)))"

definition SignalProcess :: "Service \<Rightarrow> ProcessRequest \<Rightarrow> Empty option \<times> error option" where
  "SignalProcess s r =
     (case ex_Load (Service_executor s) (pr_ContainerID r) of
        Inl err \<Rightarrow> (emptyResponse, Some err)
      | Inr container \<Rightarrow>
          (case Container_GetProcess container (pr_ProcessID r) of
             None \<Rightarrow> (None, Some (Errorf ''Make me a constant! Process not foumd!''))
           | Some process \<Rightarrow> (emptyResponse, Process_Signal process (pr_Signal r))))"

definition DeleteProcess :: "Service \<Rightarrow> ProcessRequest \<Rightarrow> Empty option \<times> error option" where
  "DeleteProcess s r =
     (case ex_Load (Service_executor s) (pr_ContainerID r) of
        Inl err \<Rightarrow> (emptyResponse, Some err)
      | Inr container \<Rightarrow>
          (case ex_DeleteProcess (Service_executor s) container (pr_ProcessID r) of
             Some err \<Rightarrow> (emptyResponse, Some err)
           | None \<Rightarrow> (emptyResponse, None)))"

definition ListProcesses :: "Service \<Rightarrow> string \<Rightarrow> api_Process list option \<times> error option" where
  "ListProcesses s rID =
     (case ex_Load (Service_executor s) rID of
        Inl err \<Rightarrow> (None, Some err)
      | Inr container \<Rightarrow> (Some (toGRPCProcesses (Processes container)), None))"

section \<open>Package rootfs: chain identifiers\<close>

text \<open>
  \<open>ChainIDs\<close> writes into the slice it is given, and \<open>ChainID\<close> calls it on a copy, so
  slices are modelled over a store of arrays: a slice is a window (array, offset,
  length) and two slices of one array share its cells. A digest is a string;
  \<open>digest.FromBytes\<close>, the hash function of the go-digest library, is a parameter.
\<close>

type_synonym digest = string

type_synonym store = "digest list list"

record slice =
  sl_arr :: nat
  sl_off :: nat
  sl_len :: nat

definition valid :: "store \<Rightarrow> slice \<Rightarrow> bool" where
  "valid h s = (sl_arr s < length h \<and> sl_off s + sl_len s \<le> length (h ! sl_arr s))"

definition rd :: "store \<Rightarrow> slice \<Rightarrow> nat \<Rightarrow> digest" where
  "rd h s i = (h ! sl_arr s) ! (sl_off s + i)"

definition wr :: "store \<Rightarrow> slice \<Rightarrow> nat \<Rightarrow> digest \<Rightarrow> store" where
  "wr h s i v = h[sl_arr s := (h ! sl_arr s)[sl_off s + i := v]]"

definition elems :: "store \<Rightarrow> slice \<Rightarrow> digest list" where
  "elems h s = take (sl_len s) (drop (sl_off s) (h ! sl_arr s))"

text \<open>\<open>make([]digest.Digest, n)\<close>: a fresh array of \<open>n\<close> empty digests.\<close>

definition make :: "store \<Rightarrow> nat \<Rightarrow> store \<times> slice" where
  "make h n = (h @ [replicate n []], \<lparr>sl_arr = length h, sl_off = 0, sl_len = n\<rparr>)"

text \<open>\<open>copy(dst, src)\<close>: the first \<open>min (len dst) (len src)\<close> elements of \<open>src\<close>.\<close>

definition copy_slice :: "store \<Rightarrow> slice \<Rightarrow> slice \<Rightarrow> store" where
  "copy_slice h dst src =
     fold (\<lambda>i h'. wr h' dst i (rd h src i)) [0 ..< min (sl_len dst) (sl_len src)] h"

text \<open>\<open>s[k:]\<close>, for \<open>k\<close> at most the length of \<open>s\<close>.\<close>

definition reslice :: "slice \<Rightarrow> nat \<Rightarrow> slice" where
  "reslice s k = s\<lparr>sl_off := sl_off s + k, sl_len := sl_len s - k\<rparr>"

function ChainIDs :: "(string \<Rightarrow> digest) \<Rightarrow> store \<Rightarrow> slice \<Rightarrow> store \<times> slice" where
  "ChainIDs FromBytes h dgsts =
     (if sl_len dgsts < 2 then (h, dgsts)
      else
        (let parent = FromBytes (rd h dgsts 0 @ '' '' @ rd h dgsts 1);
             next = reslice dgsts 1;
             h1 = wr h next 0 parent;
             h2 = fst (ChainIDs FromBytes h1 next)
         in (h2, dgsts)))"
  by pat_completeness auto
termination
  by (relation "measure (\<lambda>(F, h, s). sl_len s)") (auto simp: reslice_def)

declare ChainIDs.simps [simp del]

definition ChainID :: "(string \<Rightarrow> digest) \<Rightarrow> store \<Rightarrow> slice \<Rightarrow> digest \<times> store" where
  "ChainID FromBytes h dgsts =
     (case make h (sl_len dgsts) of
        (h1, chainIDs) \<Rightarrow>
          (let h2 = copy_slice h1 chainIDs dgsts;
               h3 = fst (ChainIDs FromBytes h2 chainIDs)
           in if sl_len chainIDs = 0 then ([], h3)
              else (rd h3 chainIDs (sl_len chainIDs - 1), h3)))"

section \<open>Observations on effect lists\<close>

text \<open>The events of an effect list, in the order of their publication.\<close>

fun published :: "effect list \<Rightarrow> (string \<times> ContainerExitEvent) list" where
  "published [] = []"
| "published (Published topic ev # effs) = (topic, ev) # published effs"
| "published (e # effs) = published effs"

text \<open>The number of exit events of an effect list for one process of one container.\<close>

fun exit_count :: "string \<Rightarrow> string \<Rightarrow> effect list \<Rightarrow> nat" where
  "exit_count cid pid [] = 0"
| "exit_count cid pid (Published topic ev # effs) =
     (if Event_ID ev = cid \<and> Event_PID ev = pid then 1 else 0) + exit_count cid pid effs"
| "exit_count cid pid (e # effs) = exit_count cid pid effs"




section \<open>A service lifetime\<close>

text \<open>
  \<open>Create\<close> and \<open>StartProcess\<close> are the operations that call \<open>monitorProcess\<close>; no
  operation calls \<open>publishEvent\<close>. A lifetime of the service is one run of \<open>New\<close>
  followed by the requests it serves, each paired with the state of the executor at the
  time it is served. A panic ends the lifetime.
\<close>

datatype request = Req_Create CreateContainerRequest | Req_StartProcess StartProcessRequest






section \<open>Sample inputs\<close>

definition K0 :: Decls where
  "K0 = \<lparr>Stopped = ''stopped'', Deleted = ''deleted'', UnknownStatusCode = 255,
         Status_CREATED = 0, Status_RUNNING = 1, Status_STOPPED = 2, Status_PAUSED = 3\<rparr>"

definition sample_process :: "string \<Rightarrow> Status \<Rightarrow> error + 32 word \<Rightarrow> Process" where
  "sample_process pid st w =
     \<lparr>Process_ID = pid, Process_Pid = 1, Process_Status = st,
      Process_Signal = (\<lambda>sig. None), Process_Wait = w\<rparr>"

definition sample_container :: "string \<Rightarrow> Status \<Rightarrow> Process list \<Rightarrow> Container" where
  "sample_container cid st ps =
     \<lparr>Container_ID = cid, Container_Bundle = ''/bundles/'' @ cid, Container_Status = st,
      Container_processes = ps\<rparr>"

text \<open>
  An executor that knows the containers \<open>cs\<close>: \<open>Load\<close> fails on any other ID, and
  \<open>DeleteProcess\<close> fails with an error of its own on a process ID that the container
  does not have.
\<close>

definition sample_executor :: "Container list \<Rightarrow> Executor" where
  "sample_executor cs =
     \<lparr>ex_List = Inr cs,
      ex_Load = (\<lambda>cid. case find (\<lambda>c. Container_ID c = cid) cs of
                         None \<Rightarrow> Inl (Failure ''container not found'')
                       | Some c \<Rightarrow> Inr c),
      ex_Create = (\<lambda>cid opts. Inr (sample_container cid ''created''
                                      [sample_process ''init'' ''running'' (Inr 0)])),
      ex_Delete = (\<lambda>c. None),
      ex_Pause = (\<lambda>c. None),
      ex_Resume = (\<lambda>c. None),
      ex_Start = (\<lambda>c. None),
      ex_StartProcess = (\<lambda>c opts. Inr (sample_process (spo_ID opts) ''running'' (Inr 0))),
      ex_DeleteProcess = (\<lambda>c pid. case Container_GetProcess c pid of
                                      None \<Rightarrow> Some (Failure ''no such process'')
                                    | Some p \<Rightarrow> None)\<rparr>"

text \<open>
  An executor that starts a process only for a spec with \<open>NoNewPrivileges\<close> set and a
  console of 80 by 80.
\<close>

definition strict_executor :: "Container list \<Rightarrow> Executor" where
  "strict_executor cs =
     (sample_executor cs)
       \<lparr>ex_StartProcess := (\<lambda>c opts.
          if NoNewPrivileges (spo_Spec opts) \<and>
             ConsoleSize (spo_Spec opts) = \<lparr>Height = 80, Width = 80\<rparr>
          then Inr (sample_process (spo_ID opts) ''running'' (Inr 0))
          else Inl (Failure ''refused''))\<rparr>"

text \<open>An executor whose \<open>List\<close> fails.\<close>

definition failing_executor :: Executor where
  "failing_executor = (sample_executor [])\<lparr>ex_List := Inl (Failure ''list failed'')\<rparr>"

text \<open>
  The container \<open>c2\<close> of the recovery scenario: it is stopped, its init process has
  stopped, and its process \<open>p3\<close> is still marked running.
\<close>

definition c2 :: Container where
  "c2 = sample_container ''c2'' ''stopped''
          [sample_process ''init'' ''stopped'' (Inr 0),
           sample_process ''p3'' ''running'' (Inr 137)]"

text \<open>The container \<open>c1\<close>, running, with its init process and a process \<open>p2\<close>.\<close>

definition c1 :: Container where
  "c1 = sample_container ''c1'' ''running''
          [sample_process ''init'' ''running'' (Inr 0),
           sample_process ''p2'' ''running'' (Inl (Failure ''wait failed''))]"

text \<open>The container \<open>c1\<close> after it has stopped.\<close>

definition c1_stopped :: Container where
  "c1_stopped = sample_container ''c1'' ''stopped''
          [sample_process ''init'' ''stopped'' (Inr 0),
           sample_process ''p2'' ''stopped'' (Inl (Failure ''wait failed''))]"

text \<open>A container that the executor reports without any process.\<close>

definition c0 :: Container where
  "c0 = sample_container ''c0'' ''running'' []"

definition sample_request :: "string \<Rightarrow> string \<Rightarrow> ProcessRequest" where
  "sample_request cid pid = \<lparr>pr_ContainerID = cid, pr_ProcessID = pid, pr_Signal = 15\<rparr>"

definition sample_start :: StartProcessRequest where
  "sample_start =
     \<lparr>spr_ContainerID = ''c1'',
      spr_Process = Some \<lparr>ap_ID = ''p4'', ap_Pid = 0, ap_Args = [''/bin/true''],
                          ap_Env = [''A=b''], ap_Cwd = ''/'', ap_Terminal = True\<rparr>,
      spr_Console = [], spr_Stdin = [], spr_Stdout = [], spr_Stderr = []\<rparr>"

definition sample_create :: CreateContainerRequest where
  "sample_create =
     \<lparr>ccr_ID = ''c5'', ccr_BundlePath = ''/bundles/c5'', ccr_Console = [],
      ccr_Stdin = [], ccr_Stdout = [], ccr_Stderr = []\<rparr>"

text \<open>A stand-in for the hash function, and a store with one array of three digests.\<close>

definition H0 :: "string \<Rightarrow> digest" where
  "H0 b = ''H('' @ b @ '')''"

definition abc :: store where
  "abc = [[''A'', ''B'', ''C'']]"

definition window :: "nat \<Rightarrow> nat \<Rightarrow> slice" where
  "window i n = \<lparr>sl_arr = 0, sl_off = i, sl_len = n\<rparr>"

text \<open>Two requests served after the recovery of \<open>c1\<close> and \<open>c2\<close>.\<close>

definition sample_steps :: "(Executor \<times> request) list" where
  "sample_steps =
     [(sample_executor [c1, c2], Req_StartProcess sample_start),
      (sample_executor [c1, c2], Req_Create sample_create)]"

section \<open>Unfolding rules\<close>

lemmas sample_defs =
  K0_def sample_process_def sample_container_def sample_executor_def failing_executor_def
  strict_executor_def sample_steps_def
  c0_def c1_def c1_stopped_def c2_def sample_request_def sample_start_def sample_create_def

lemmas service_defs =
  New_def New_container_def New_process_def monitorProcess_def monitorProcess_task_def
  GetContainerProcessEventTopic_def exit_event_def Processes_def Container_GetProcess_def
  emptyResponse_def os_Kill_def

section \<open>The recovery loop\<close>

lemma New_container_Panic: "New_container K c = Panic \<longleftrightarrow> Container_processes c = []"
  by (simp add: New_container_def Processes_def split: list.splits)

lemma New_container_Return:
  "Container_processes c \<noteq> [] \<Longrightarrow>
   New_container K c =
     Return (concat (map (New_process K c (Container_Status c)) (Container_processes c)))"
  by (simp add: New_container_def Processes_def split: list.splits)

lemma New_loop_Cons_Return:
  "New_container K c = Return effs \<Longrightarrow>
   New_loop K (c # cs) = (fst (New_loop K cs), effs @ snd (New_loop K cs))"
  by (simp split: prod.splits)

lemma New_loop_Panic: "fst (New_loop K cs) = Panic \<longleftrightarrow> (\<exists>c\<in>set cs. Container_processes c = [])"
proof (induction cs)
  case Nil
  show ?case by simp
next
  case (Cons c cs)
  show ?case
  proof (cases "Container_processes c = []")
    case True
    then have "New_container K c = Panic" by (simp add: New_container_Panic)
    with True show ?thesis by simp
  next
    case False
    from New_loop_Cons_Return [OF New_container_Return [OF False]] Cons.IH False
    show ?thesis by simp
  qed
qed

lemma New_outcome:
  "fst (New K ex) =
     (case ex_List ex of
        Inl err \<Rightarrow> Return (None, Some err)
      | Inr cs \<Rightarrow> if \<exists>c\<in>set cs. Container_processes c = [] then Panic
                  else Return (Some \<lparr>Service_executor = ex\<rparr>, None))"
proof (cases "ex_List ex")
  case (Inl err)
  then show ?thesis by (simp add: New_def)
next
  case (Inr cs)
  obtain r effs where loop: "New_loop K cs = (r, effs)" by (cases "New_loop K cs")
  with New_loop_Panic [of K cs] have "r = Panic \<longleftrightarrow> (\<exists>c\<in>set cs. Container_processes c = [])"
    by simp
  with Inr loop show ?thesis
    by (cases r) (simp_all add: New_def)
qed

lemma New_effects:
  "ex_List ex = Inr cs \<Longrightarrow> snd (New K ex) = snd (New_loop K cs)"
  by (simp add: New_def split: prod.splits outcome.splits)

lemma New_process_live_monitors:
  "st \<noteq> Stopped K \<Longrightarrow> st \<noteq> Deleted K \<Longrightarrow> New_process K c st p = [Monitor c p]"
  by (simp add: New_process_def monitorProcess_def)

lemma New_loop_effects_reached:
  "snd (New_loop K cs) =
     concat (map (\<lambda>c. concat (map (New_process K c (Container_Status c)) (Container_processes c)))
       (takeWhile (\<lambda>c. Container_processes c \<noteq> []) cs))"
proof (induction cs)
  case Nil
  show ?case by simp
next
  case (Cons c cs)
  show ?case
  proof (cases "Container_processes c = []")
    case True
    then have "New_container K c = Panic" by (simp add: New_container_Panic)
    with True show ?thesis by simp
  next
    case False
    from New_loop_Cons_Return [OF New_container_Return [OF False]] Cons.IH False
    show ?thesis by simp
  qed
qed

lemma New_loop_covers_reached:
  "c \<in> set (takeWhile (\<lambda>c. Container_processes c \<noteq> []) cs) \<Longrightarrow>
   p \<in> set (Container_processes c) \<Longrightarrow>
   set (New_process K c (Container_Status c) p) \<subseteq> set (snd (New_loop K cs))"
  by (auto simp: New_loop_effects_reached)

lemma New_process_stopped_event:
  "st = Stopped K \<or> st = Deleted K \<Longrightarrow>
   Published (GetContainerProcessEventTopic (Container_ID c) (Process_ID p))
     \<lparr>Event_ID = Container_ID c, Event_Action = ''exit'', Event_PID = Process_ID p,
      Event_StatusCode = (case Process_Wait p of Inr sc \<Rightarrow> sc | Inl err \<Rightarrow> UnknownStatusCode K)\<rparr>
   \<in> set (New_process K c st p)"
  by (auto simp: New_process_def Let_def exit_event_def)

section \<open>Counting exit events\<close>










section \<open>Exit events of a lifetime\<close>








section \<open>Writes of the chain functions\<close>

lemma wr_length: "length (wr h s i v) = length h"
  by (simp add: wr_def)

lemma wr_other_array: "a \<noteq> sl_arr s \<Longrightarrow> wr h s i v ! a = h ! a"
  by (simp add: wr_def)

lemma wr_other_cell: "j \<noteq> sl_off s + i \<Longrightarrow> (wr h s i v ! a) ! j = (h ! a) ! j"
  by (cases "a = sl_arr s"; cases "sl_arr s < length h")
    (simp_all add: wr_def list_update_beyond)

lemma ChainIDs_snd: "snd (ChainIDs F h s) = s"
  by (subst ChainIDs.simps) (simp add: Let_def)

lemma ChainIDs_length: "length (fst (ChainIDs F h s)) = length h"
proof (induction F h s rule: ChainIDs.induct)
  case (1 F h s)
  show ?case
  proof (cases "sl_len s < 2")
    case True
    then show ?thesis by (subst ChainIDs.simps) simp
  next
    case False
    with "1.IH" show ?thesis
      by (subst ChainIDs.simps) (simp add: Let_def wr_length)
  qed
qed

lemma ChainIDs_other_array: "a \<noteq> sl_arr s \<Longrightarrow> fst (ChainIDs F h s) ! a = h ! a"
proof (induction F h s rule: ChainIDs.induct)
  case (1 F h s)
  show ?case
  proof (cases "sl_len s < 2")
    case True
    then show ?thesis by (subst ChainIDs.simps) simp
  next
    case False
    with "1.IH" "1.prems" show ?thesis
      by (subst ChainIDs.simps) (simp add: Let_def wr_other_array reslice_def)
  qed
qed

lemma ChainIDs_prefix_cells:
  "j \<le> sl_off s \<Longrightarrow> (fst (ChainIDs F h s) ! a) ! j = (h ! a) ! j"
proof (induction F h s rule: ChainIDs.induct)
  case (1 F h s)
  show ?case
  proof (cases "sl_len s < 2")
    case True
    then show ?thesis by (subst ChainIDs.simps) simp
  next
    case False
    with "1.IH" "1.prems" show ?thesis
      by (subst ChainIDs.simps) (simp add: Let_def wr_other_cell reslice_def)
  qed
qed

lemma copy_fold_other_array:
  "a \<noteq> sl_arr dst \<Longrightarrow> fold (\<lambda>i h'. wr h' dst i (f i)) is h ! a = h ! a"
  by (induction "is" arbitrary: h) (simp_all add: wr_other_array)

lemma copy_fold_length: "length (fold (\<lambda>i h'. wr h' dst i (f i)) is h) = length h"
  by (induction "is" arbitrary: h) (simp_all add: wr_length)

lemma copy_slice_other_array: "a \<noteq> sl_arr dst \<Longrightarrow> copy_slice h dst src ! a = h ! a"
  by (simp add: copy_slice_def copy_fold_other_array)

lemma copy_slice_length: "length (copy_slice h dst src) = length h"
  by (simp add: copy_slice_def copy_fold_length)

lemma ChainID_store:
  "snd (ChainID F h s) =
     fst (ChainIDs F (copy_slice (h @ [replicate (sl_len s) []])
                        \<lparr>sl_arr = length h, sl_off = 0, sl_len = sl_len s\<rparr> s)
            \<lparr>sl_arr = length h, sl_off = 0, sl_len = sl_len s\<rparr>)"
  by (simp add: ChainID_def make_def Let_def)

lemma ChainID_keeps_store: "take (length h) (snd (ChainID F h s)) = h"
proof (rule nth_equalityI)
  show "length (take (length h) (snd (ChainID F h s))) = length h"
    by (simp add: ChainID_store ChainIDs_length copy_slice_length)
next
  fix a
  assume "a < length (take (length h) (snd (ChainID F h s)))"
  then have a: "a < length h" by simp
  then have "snd (ChainID F h s) ! a = (h @ [replicate (sl_len s) []]) ! a"
    by (simp add: ChainID_store ChainIDs_other_array copy_slice_other_array)
  with a show "take (length h) (snd (ChainID F h s)) ! a = h ! a"
    by (simp add: nth_append)
qed

text \<open>The chain of \<open>A\<close>, \<open>B\<close>, \<open>C\<close>, written back into the slice and returned by \<open>ChainID\<close>.\<close>

lemma ChainIDs_abc:
  "ChainIDs H0 abc (window 0 3) = ([[''A'', ''H(A B)'', ''H(H(A B) C)'']], window 0 3)"
  by (simp add: ChainIDs.simps [of H0] Let_def rd_def wr_def reslice_def H0_def abc_def
      window_def)

lemma ChainID_abc:
  "ChainID H0 abc (window 0 3) = (''H(H(A B) C)'', abc @ [[''A'', ''H(A B)'', ''H(H(A B) C)'']])"
  by (simp add: ChainID_def make_def copy_slice_def ChainIDs.simps [of H0] Let_def rd_def wr_def
      reslice_def H0_def abc_def window_def upt_rec numeral_3_eq_3)

section \<open>Properties of the service\<close>

text \<open>
  C1. Boot recovery of a stopped container is expected to publish the exit events of
  the non-init processes before the exit event of the init process. The loop of \<open>New\<close>
  ranges over the stored sequence, not over the reordered one: for the stopped container
  \<open>c2\<close> with the processes \<open>init\<close> and \<open>p3\<close>, the exit event of \<open>init\<close> is published
  first and the exit event of \<open>p3\<close> after it.
\<close>

theorem New_publishes_init_first:
  "published (snd (New K0 (sample_executor [c2]))) =
     [(''containers.c2.processes.init'', exit_event ''c2'' ''init'' 0),
      (''containers.c2.processes.p3'', exit_event ''c2'' ''p3'' 137)]"
  by (simp add: sample_defs service_defs)




text \<open>
  C3. A process ID that the container does not have is expected to fail with one sentinel
  error in \<open>GetProcess\<close>, \<open>SignalProcess\<close> and \<open>DeleteProcess\<close>. For the container
  \<open>c1\<close> and the process ID \<open>ghost\<close>, \<open>GetProcess\<close> fails with \<open>ErrProcessNotFound\<close>,
  \<open>SignalProcess\<close> fails with an error value formatted on the spot, and
  \<open>DeleteProcess\<close> hands on the error of the executor.
\<close>

theorem SignalProcess_not_sentinel:
  "snd (GetProcess \<lparr>Service_executor = sample_executor [c1]\<rparr> (sample_request ''c1'' ''ghost''))
     = Some ErrProcessNotFound \<and>
   snd (SignalProcess \<lparr>Service_executor = sample_executor [c1]\<rparr> (sample_request ''c1'' ''ghost''))
     = Some (Errorf ''Make me a constant! Process not foumd!'') \<and>
   snd (DeleteProcess \<lparr>Service_executor = sample_executor [c1]\<rparr> (sample_request ''c1'' ''ghost''))
     = Some (Failure ''no such process'')"
  by (simp add: sample_defs service_defs GetProcess_def SignalProcess_def DeleteProcess_def)

text \<open>
  C4. The task of a process monitor: when \<open>Wait()\<close> returns a status code, the task
  publishes exactly one exit event, on the topic of the container and process, carrying
  the ID of the process and that status code; when \<open>Wait()\<close> returns an error, the task
  publishes nothing.
\<close>

theorem monitorProcess_task_exit_event:
  "(\<forall>sc. Process_Wait p = Inr sc \<longrightarrow>
      monitorProcess_task c p =
        [Published (GetContainerProcessEventTopic (Container_ID c) (Process_ID p))
           (exit_event (Container_ID c) (Process_ID p) sc)] \<and>
      exit_count (Container_ID c) (Process_ID p) (monitorProcess_task c p) = 1 \<and>
      Event_PID (exit_event (Container_ID c) (Process_ID p) sc) = Process_ID p \<and>
      Event_StatusCode (exit_event (Container_ID c) (Process_ID p) sc) = sc) \<and>
   (\<forall>err. Process_Wait p = Inl err \<longrightarrow> monitorProcess_task c p = [])"
  by (simp add: monitorProcess_task_def exit_event_def)

theorem monitorProcess_task_exit_event_witness:
  "monitorProcess_task c1 (sample_process ''init'' ''running'' (Inr 0)) =
     [Published ''containers.c1.processes.init'' (exit_event ''c1'' ''init'' 0)] \<and>
   monitorProcess_task c1 (sample_process ''p2'' ''running'' (Inl (Failure ''wait failed''))) = []"
  using monitorProcess_task_exit_event [of "sample_process ''init'' ''running'' (Inr 0)" c1]
    monitorProcess_task_exit_event
      [of "sample_process ''p2'' ''running'' (Inl (Failure ''wait failed''))" c1]
  by (simp add: sample_defs GetContainerProcessEventTopic_def)

text \<open>
  C5. \<open>New\<close> returns an error exactly when the executor's \<open>List\<close> fails, and it is
  that error. When \<open>List\<close> succeeds, \<open>New\<close> returns the service unless some container
  has no process, where it panics (C9); and every process of every container that comes
  before the first container without a process is handled whatever the \<open>Wait()\<close> of any
  process returns: for a container that is stopped or deleted the exit event of each
  process is published, with the status code \<open>UnknownStatusCode\<close> where \<open>Wait()\<close>
  failed and with the returned status code where it did not; for any other container a
  monitor is started for each process.
\<close>

theorem New_fails_only_on_List:
  "((\<exists>sv. fst (New K ex) = Return (sv, Some e)) \<longleftrightarrow> ex_List ex = Inl e) \<and>
   (\<forall>cs. ex_List ex = Inr cs \<longrightarrow>
      fst (New K ex) =
        (if \<exists>c\<in>set cs. Processes c = [] then Panic
         else Return (Some \<lparr>Service_executor = ex\<rparr>, None)) \<and>
      (\<forall>c\<in>set (takeWhile (\<lambda>c. Processes c \<noteq> []) cs). \<forall>p\<in>set (Processes c).
         (Container_Status c = Stopped K \<or> Container_Status c = Deleted K \<longrightarrow>
            (\<forall>err. Process_Wait p = Inl err \<longrightarrow>
               Published (GetContainerProcessEventTopic (Container_ID c) (Process_ID p))
                 \<lparr>Event_ID = Container_ID c, Event_Action = ''exit'',
                  Event_PID = Process_ID p, Event_StatusCode = UnknownStatusCode K\<rparr>
               \<in> set (snd (New K ex))) \<and>
            (\<forall>sc. Process_Wait p = Inr sc \<longrightarrow>
               Published (GetContainerProcessEventTopic (Container_ID c) (Process_ID p))
                 \<lparr>Event_ID = Container_ID c, Event_Action = ''exit'',
                  Event_PID = Process_ID p, Event_StatusCode = sc\<rparr>
               \<in> set (snd (New K ex)))) \<and>
         (Container_Status c \<noteq> Stopped K \<and> Container_Status c \<noteq> Deleted K \<longrightarrow>
            Monitor c p \<in> set (snd (New K ex)))))"
proof (intro conjI allI impI ballI)
  show "(\<exists>sv. fst (New K ex) = Return (sv, Some e)) \<longleftrightarrow> ex_List ex = Inl e"
    by (cases "ex_List ex") (simp_all add: New_outcome)
next
  fix cs
  assume "ex_List ex = Inr cs"
  then show "fst (New K ex) =
        (if \<exists>c\<in>set cs. Processes c = [] then Panic
         else Return (Some \<lparr>Service_executor = ex\<rparr>, None))"
    by (simp add: New_outcome Processes_def)
next
  fix cs c p err
  assume l: "ex_List ex = Inr cs"
    and c: "c \<in> set (takeWhile (\<lambda>c. Processes c \<noteq> []) cs)" and p: "p \<in> set (Processes c)"
    and st: "Container_Status c = Stopped K \<or> Container_Status c = Deleted K"
    and w: "Process_Wait p = Inl err"
  from c have c': "c \<in> set (takeWhile (\<lambda>c. Container_processes c \<noteq> []) cs)"
    by (simp add: Processes_def)
  from p have p': "p \<in> set (Container_processes c)" by (simp add: Processes_def)
  from New_process_stopped_event [OF st, of c p] w New_loop_covers_reached [OF c' p', of K]
    New_effects [OF l, of K]
  show "Published (GetContainerProcessEventTopic (Container_ID c) (Process_ID p))
          \<lparr>Event_ID = Container_ID c, Event_Action = ''exit'',
           Event_PID = Process_ID p, Event_StatusCode = UnknownStatusCode K\<rparr>
        \<in> set (snd (New K ex))"
    by auto
next
  fix cs c p sc
  assume l: "ex_List ex = Inr cs"
    and c: "c \<in> set (takeWhile (\<lambda>c. Processes c \<noteq> []) cs)" and p: "p \<in> set (Processes c)"
    and st: "Container_Status c = Stopped K \<or> Container_Status c = Deleted K"
    and w: "Process_Wait p = Inr sc"
  from c have c': "c \<in> set (takeWhile (\<lambda>c. Container_processes c \<noteq> []) cs)"
    by (simp add: Processes_def)
  from p have p': "p \<in> set (Container_processes c)" by (simp add: Processes_def)
  from New_process_stopped_event [OF st, of c p] w New_loop_covers_reached [OF c' p', of K]
    New_effects [OF l, of K]
  show "Published (GetContainerProcessEventTopic (Container_ID c) (Process_ID p))
          \<lparr>Event_ID = Container_ID c, Event_Action = ''exit'',
           Event_PID = Process_ID p, Event_StatusCode = sc\<rparr>
        \<in> set (snd (New K ex))"
    by auto
next
  fix cs c p
  assume l: "ex_List ex = Inr cs"
    and c: "c \<in> set (takeWhile (\<lambda>c. Processes c \<noteq> []) cs)" and p: "p \<in> set (Processes c)"
    and st: "Container_Status c \<noteq> Stopped K \<and> Container_Status c \<noteq> Deleted K"
  from c have c': "c \<in> set (takeWhile (\<lambda>c. Container_processes c \<noteq> []) cs)"
    by (simp add: Processes_def)
  from p have p': "p \<in> set (Container_processes c)" by (simp add: Processes_def)
  from st New_process_live_monitors [of "Container_Status c" K c p]
    New_loop_covers_reached [OF c' p', of K] New_effects [OF l, of K]
  show "Monitor c p \<in> set (snd (New K ex))"
    by auto
qed

theorem New_fails_only_on_List_witness:
  "fst (New K0 failing_executor) = Return (None, Some (Failure ''list failed'')) \<and>
   fst (New K0 (sample_executor [c1_stopped, c2])) =
     Return (Some \<lparr>Service_executor = sample_executor [c1_stopped, c2]\<rparr>, None) \<and>
   Published ''containers.c1.processes.p2''
       \<lparr>Event_ID = ''c1'', Event_Action = ''exit'', Event_PID = ''p2'', Event_StatusCode = 255\<rparr>
     \<in> set (snd (New K0 (sample_executor [c1_stopped, c2]))) \<and>
   Published ''containers.c2.processes.p3''
       \<lparr>Event_ID = ''c2'', Event_Action = ''exit'', Event_PID = ''p3'', Event_StatusCode = 137\<rparr>
     \<in> set (snd (New K0 (sample_executor [c1_stopped, c2]))) \<and>
   fst (New K0 (sample_executor [c1_stopped, c0, c2])) = Panic \<and>
   Published ''containers.c1.processes.p2''
       \<lparr>Event_ID = ''c1'', Event_Action = ''exit'', Event_PID = ''p2'', Event_StatusCode = 255\<rparr>
     \<in> set (snd (New K0 (sample_executor [c1_stopped, c0, c2])))"
proof -
  have l: "ex_List (sample_executor [c1_stopped, c2]) = Inr [c1_stopped, c2]"
    and l0: "ex_List (sample_executor [c1_stopped, c0, c2]) = Inr [c1_stopped, c0, c2]"
    and f: "ex_List failing_executor = Inl (Failure ''list failed'')"
    by (simp_all add: sample_defs)
  have tw: "takeWhile (\<lambda>c. Processes c \<noteq> []) [c1_stopped, c2] = [c1_stopped, c2]"
    and tw0: "takeWhile (\<lambda>c. Processes c \<noteq> []) [c1_stopped, c0, c2] = [c1_stopped]"
    and e: "\<not> (\<exists>c\<in>set [c1_stopped, c2]. Processes c = [])"
    and e0: "\<exists>c\<in>set [c1_stopped, c0, c2]. Processes c = []"
    by (simp_all add: sample_defs Processes_def)
  from New_fails_only_on_List [of K0 failing_executor "Failure ''list failed''"] f
  have "\<exists>sv. fst (New K0 failing_executor) = Return (sv, Some (Failure ''list failed''))"
    by simp
  then have b: "fst (New K0 failing_executor) = Return (None, Some (Failure ''list failed''))"
    by (simp add: New_def f)
  from New_fails_only_on_List [of K0 "sample_executor [c1_stopped, c2]"] l e
  have r: "fst (New K0 (sample_executor [c1_stopped, c2])) =
      Return (Some \<lparr>Service_executor = sample_executor [c1_stopped, c2]\<rparr>, None)"
    by simp
  from New_fails_only_on_List [of K0 "sample_executor [c1_stopped, c2]"] l
  have cov: "\<forall>c\<in>set (takeWhile (\<lambda>c. Processes c \<noteq> []) [c1_stopped, c2]).
       \<forall>p\<in>set (Processes c).
         Container_Status c = Stopped K0 \<or> Container_Status c = Deleted K0 \<longrightarrow>
            (\<forall>err. Process_Wait p = Inl err \<longrightarrow>
               Published (GetContainerProcessEventTopic (Container_ID c) (Process_ID p))
                 \<lparr>Event_ID = Container_ID c, Event_Action = ''exit'',
                  Event_PID = Process_ID p, Event_StatusCode = UnknownStatusCode K0\<rparr>
               \<in> set (snd (New K0 (sample_executor [c1_stopped, c2])))) \<and>
            (\<forall>sc. Process_Wait p = Inr sc \<longrightarrow>
               Published (GetContainerProcessEventTopic (Container_ID c) (Process_ID p))
                 \<lparr>Event_ID = Container_ID c, Event_Action = ''exit'',
                  Event_PID = Process_ID p, Event_StatusCode = sc\<rparr>
               \<in> set (snd (New K0 (sample_executor [c1_stopped, c2]))))"
    by blast
  from cov have p2p3:
    "Published ''containers.c1.processes.p2''
       \<lparr>Event_ID = ''c1'', Event_Action = ''exit'', Event_PID = ''p2'', Event_StatusCode = 255\<rparr>
     \<in> set (snd (New K0 (sample_executor [c1_stopped, c2])))"
    "Published ''containers.c2.processes.p3''
       \<lparr>Event_ID = ''c2'', Event_Action = ''exit'', Event_PID = ''p3'', Event_StatusCode = 137\<rparr>
     \<in> set (snd (New K0 (sample_executor [c1_stopped, c2])))"
    unfolding tw
    by (simp_all add: Processes_def c1_stopped_def c2_def sample_container_def
        sample_process_def K0_def GetContainerProcessEventTopic_def)
  from New_fails_only_on_List [of K0 "sample_executor [c1_stopped, c0, c2]"] l0 e0
  have pn: "fst (New K0 (sample_executor [c1_stopped, c0, c2])) = Panic"
    by simp
  from New_fails_only_on_List [of K0 "sample_executor [c1_stopped, c0, c2]"] l0
  have cov0: "\<forall>c\<in>set (takeWhile (\<lambda>c. Processes c \<noteq> []) [c1_stopped, c0, c2]).
       \<forall>p\<in>set (Processes c).
         Container_Status c = Stopped K0 \<or> Container_Status c = Deleted K0 \<longrightarrow>
            (\<forall>err. Process_Wait p = Inl err \<longrightarrow>
               Published (GetContainerProcessEventTopic (Container_ID c) (Process_ID p))
                 \<lparr>Event_ID = Container_ID c, Event_Action = ''exit'',
                  Event_PID = Process_ID p, Event_StatusCode = UnknownStatusCode K0\<rparr>
               \<in> set (snd (New K0 (sample_executor [c1_stopped, c0, c2]))))"
    by blast
  from cov0 have p2:
    "Published ''containers.c1.processes.p2''
       \<lparr>Event_ID = ''c1'', Event_Action = ''exit'', Event_PID = ''p2'', Event_StatusCode = 255\<rparr>
     \<in> set (snd (New K0 (sample_executor [c1_stopped, c0, c2])))"
    unfolding tw0
    by (simp add: Processes_def c1_stopped_def sample_container_def
        sample_process_def K0_def GetContainerProcessEventTopic_def)
  from b r p2p3 pn p2 show ?thesis by simp
qed

text \<open>
  C6. An operation without a payload is expected to return the empty payload next to
  every error. When \<open>Load\<close> fails, \<open>Pause\<close>, \<open>Resume\<close> and \<open>Start\<close> return no payload,
  where \<open>Delete\<close> returns the empty one; \<open>SignalProcess\<close> returns no payload for a
  process ID that the container does not have.
\<close>

theorem nil_payload_with_error:
  "Pause \<lparr>Service_executor = sample_executor [c1]\<rparr> ''zz''
     = (None, Some (Failure ''container not found'')) \<and>
   Resume \<lparr>Service_executor = sample_executor [c1]\<rparr> ''zz''
     = (None, Some (Failure ''container not found'')) \<and>
   Start \<lparr>Service_executor = sample_executor [c1]\<rparr> ''zz''
     = (None, Some (Failure ''container not found'')) \<and>
   fst (SignalProcess \<lparr>Service_executor = sample_executor [c1]\<rparr> (sample_request ''c1'' ''ghost''))
     = None \<and>
   Delete \<lparr>Service_executor = sample_executor [c1]\<rparr> ''zz''
     = (Some Empty, Some (Failure ''container not found''))"
  by (simp add: sample_defs service_defs Pause_def Resume_def Start_def Delete_def
      SignalProcess_def)

text \<open>
  C7. Every process spec that \<open>StartProcess\<close> passes to the executor has
  \<open>NoNewPrivileges\<close> set and a console of 80 by 80, and takes the terminal flag, the
  arguments, the environment and the working directory from the process message of the
  request, and nothing else. When the container loads and the request carries a process
  message, the executor's \<open>StartProcess\<close> is applied to the options with that spec, and
  its answer decides the result: its error is returned, or its process is returned and
  monitored. A request without a process message panics once the container has loaded,
  and nothing is passed to the executor when the container does not load.
\<close>

theorem StartProcess_spec:
  "(\<forall>c opts. Exec_StartProcess c opts \<in> set (snd (StartProcess s r)) \<longrightarrow>
      (\<exists>pr. spr_Process r = Some pr \<and>
         spo_Spec opts =
           \<lparr>Terminal = ap_Terminal pr, ConsoleSize = \<lparr>Height = 80, Width = 80\<rparr>,
            Args = ap_Args pr, Env = ap_Env pr, Cwd = ap_Cwd pr, NoNewPrivileges = True\<rparr>)) \<and>
   (\<forall>c pr opts.
      ex_Load (Service_executor s) (spr_ContainerID r) = Inr c \<and> spr_Process r = Some pr \<and>
      opts = \<lparr>spo_ID = ap_ID pr,
              spo_Spec = \<lparr>Terminal = ap_Terminal pr, ConsoleSize = \<lparr>Height = 80, Width = 80\<rparr>,
                          Args = ap_Args pr, Env = ap_Env pr, Cwd = ap_Cwd pr,
                          NoNewPrivileges = True\<rparr>,
              spo_Console = spr_Console r, spo_Stdin = spr_Stdin r,
              spo_Stdout = spr_Stdout r, spo_Stderr = spr_Stderr r\<rparr> \<longrightarrow>
      hd (snd (StartProcess s r)) = Exec_StartProcess c opts \<and>
      (\<forall>err. ex_StartProcess (Service_executor s) c opts = Inl err \<longrightarrow>
         StartProcess s r = (Return (None, Some err), [Exec_StartProcess c opts])) \<and>
      (\<forall>p. ex_StartProcess (Service_executor s) c opts = Inr p \<longrightarrow>
         StartProcess s r =
           (Return (Some (toGRPCProcess p), None), [Exec_StartProcess c opts, Monitor c p]))) \<and>
   (\<forall>c. ex_Load (Service_executor s) (spr_ContainerID r) = Inr c \<and> spr_Process r = None \<longrightarrow>
      StartProcess s r = (Panic, [])) \<and>
   (\<forall>err. ex_Load (Service_executor s) (spr_ContainerID r) = Inl err \<longrightarrow>
      StartProcess s r = (Return (None, Some err), []))"
proof (intro conjI allI impI)
  fix c opts
  assume "Exec_StartProcess c opts \<in> set (snd (StartProcess s r))"
  then show "\<exists>pr. spr_Process r = Some pr \<and>
         spo_Spec opts =
           \<lparr>Terminal = ap_Terminal pr, ConsoleSize = \<lparr>Height = 80, Width = 80\<rparr>,
            Args = ap_Args pr, Env = ap_Env pr, Cwd = ap_Cwd pr, NoNewPrivileges = True\<rparr>"
    by (auto simp: StartProcess_def monitorProcess_def Let_def
        split: sum.splits option.splits)
next
  fix c pr opts
  assume h: "ex_Load (Service_executor s) (spr_ContainerID r) = Inr c \<and> spr_Process r = Some pr \<and>
      opts = \<lparr>spo_ID = ap_ID pr,
              spo_Spec = \<lparr>Terminal = ap_Terminal pr, ConsoleSize = \<lparr>Height = 80, Width = 80\<rparr>,
                          Args = ap_Args pr, Env = ap_Env pr, Cwd = ap_Cwd pr,
                          NoNewPrivileges = True\<rparr>,
              spo_Console = spr_Console r, spo_Stdin = spr_Stdin r,
              spo_Stdout = spr_Stdout r, spo_Stderr = spr_Stderr r\<rparr>"
  then show "hd (snd (StartProcess s r)) = Exec_StartProcess c opts"
    by (simp add: StartProcess_def monitorProcess_def Let_def split: sum.splits)
  {
    fix err
    assume "ex_StartProcess (Service_executor s) c opts = Inl err"
    with h show "StartProcess s r = (Return (None, Some err), [Exec_StartProcess c opts])"
      by (simp add: StartProcess_def Let_def)
  }
  {
    fix p
    assume "ex_StartProcess (Service_executor s) c opts = Inr p"
    with h show "StartProcess s r =
           (Return (Some (toGRPCProcess p), None), [Exec_StartProcess c opts, Monitor c p])"
      by (simp add: StartProcess_def monitorProcess_def Let_def)
  }
next
  fix c
  assume "ex_Load (Service_executor s) (spr_ContainerID r) = Inr c \<and> spr_Process r = None"
  then show "StartProcess s r = (Panic, [])" by (simp add: StartProcess_def)
next
  fix err
  assume "ex_Load (Service_executor s) (spr_ContainerID r) = Inl err"
  then show "StartProcess s r = (Return (None, Some err), [])" by (simp add: StartProcess_def)
qed

theorem StartProcess_spec_witness:
  "StartProcess \<lparr>Service_executor = strict_executor [c1]\<rparr> sample_start =
     (Return (Some \<lparr>ap_ID = ''p4'', ap_Pid = 1, ap_Args = [], ap_Env = [], ap_Cwd = [],
                    ap_Terminal = False\<rparr>, None),
      [Exec_StartProcess c1
         \<lparr>spo_ID = ''p4'',
          spo_Spec = \<lparr>Terminal = True, ConsoleSize = \<lparr>Height = 80, Width = 80\<rparr>,
                      Args = [''/bin/true''], Env = [''A=b''], Cwd = ''/'',
                      NoNewPrivileges = True\<rparr>,
          spo_Console = [], spo_Stdin = [], spo_Stdout = [], spo_Stderr = []\<rparr>,
       Monitor c1 (sample_process ''p4'' ''running'' (Inr 0))]) \<and>
   StartProcess \<lparr>Service_executor = strict_executor [c1]\<rparr> (sample_start\<lparr>spr_Process := None\<rparr>)
     = (Panic, []) \<and>
   StartProcess \<lparr>Service_executor = strict_executor []\<rparr> sample_start
     = (Return (None, Some (Failure ''container not found'')), [])"
proof -
  define s1 where "s1 = \<lparr>Service_executor = strict_executor [c1]\<rparr>"
  define s0 where "s0 = \<lparr>Service_executor = strict_executor []\<rparr>"
  define pr where "pr = \<lparr>ap_ID = ''p4'', ap_Pid = 0, ap_Args = [''/bin/true''],
              ap_Env = [''A=b''], ap_Cwd = ''/'', ap_Terminal = True\<rparr>"
  define opts where "opts = \<lparr>spo_ID = ''p4'',
          spo_Spec = \<lparr>Terminal = True, ConsoleSize = \<lparr>Height = 80, Width = 80\<rparr>,
                      Args = [''/bin/true''], Env = [''A=b''], Cwd = ''/'',
                      NoNewPrivileges = True\<rparr>,
          spo_Console = [], spo_Stdin = [], spo_Stdout = [], spo_Stderr = []\<rparr>"
  define p4 where "p4 = sample_process ''p4'' ''running'' (Inr 0)"
  have load: "ex_Load (Service_executor s1) (spr_ContainerID sample_start) = Inr c1"
    by (simp add: s1_def strict_executor_def sample_executor_def sample_start_def c1_def
        sample_container_def)
  have prs: "spr_Process sample_start = Some pr"
    by (simp add: sample_start_def pr_def)
  have run: "ex_StartProcess (Service_executor s1) c1 opts = Inr p4"
    by (simp add: s1_def strict_executor_def sample_executor_def opts_def p4_def)
  have o: "opts = \<lparr>spo_ID = ap_ID pr,
              spo_Spec = \<lparr>Terminal = ap_Terminal pr, ConsoleSize = \<lparr>Height = 80, Width = 80\<rparr>,
                          Args = ap_Args pr, Env = ap_Env pr, Cwd = ap_Cwd pr,
                          NoNewPrivileges = True\<rparr>,
              spo_Console = spr_Console sample_start, spo_Stdin = spr_Stdin sample_start,
              spo_Stdout = spr_Stdout sample_start, spo_Stderr = spr_Stderr sample_start\<rparr>"
    by (simp add: sample_start_def opts_def pr_def)
  from load prs o have h: "ex_Load (Service_executor s1) (spr_ContainerID sample_start) = Inr c1 \<and>
      spr_Process sample_start = Some pr \<and>
      opts = \<lparr>spo_ID = ap_ID pr,
              spo_Spec = \<lparr>Terminal = ap_Terminal pr, ConsoleSize = \<lparr>Height = 80, Width = 80\<rparr>,
                          Args = ap_Args pr, Env = ap_Env pr, Cwd = ap_Cwd pr,
                          NoNewPrivileges = True\<rparr>,
              spo_Console = spr_Console sample_start, spo_Stdin = spr_Stdin sample_start,
              spo_Stdout = spr_Stdout sample_start, spo_Stderr = spr_Stderr sample_start\<rparr>"
    by (intro conjI)
  note T = StartProcess_spec [of s1 sample_start]
  from T [THEN conjunct2, THEN conjunct1, rule_format, OF h]
  have all: "\<forall>p. ex_StartProcess (Service_executor s1) c1 opts = Inr p \<longrightarrow>
         StartProcess s1 sample_start =
           (Return (Some (toGRPCProcess p), None), [Exec_StartProcess c1 opts, Monitor c1 p])"
    by (rule conjunct2 [THEN conjunct2])
  from all [rule_format, OF run] have a: "StartProcess s1 sample_start =
      (Return (Some (toGRPCProcess p4), None), [Exec_StartProcess c1 opts, Monitor c1 p4])" .
  have load': "ex_Load (Service_executor s1) (spr_ContainerID (sample_start\<lparr>spr_Process := None\<rparr>))
      = Inr c1 \<and> spr_Process (sample_start\<lparr>spr_Process := None\<rparr>) = None"
    by (simp add: s1_def strict_executor_def sample_executor_def sample_start_def c1_def
        sample_container_def)
  from StartProcess_spec [of s1 "sample_start\<lparr>spr_Process := None\<rparr>",
      THEN conjunct2, THEN conjunct2, THEN conjunct1, rule_format, OF load']
  have b: "StartProcess s1 (sample_start\<lparr>spr_Process := None\<rparr>) = (Panic, [])" .
  have load0: "ex_Load (Service_executor s0) (spr_ContainerID sample_start)
      = Inl (Failure ''container not found'')"
    by (simp add: s0_def strict_executor_def sample_executor_def sample_start_def)
  from StartProcess_spec [of s0 sample_start,
      THEN conjunct2, THEN conjunct2, THEN conjunct2, rule_format, OF load0]
  have c: "StartProcess s0 sample_start
     = (Return (None, Some (Failure ''container not found'')), [])" .
  have g: "toGRPCProcess p4 = \<lparr>ap_ID = ''p4'', ap_Pid = 1, ap_Args = [], ap_Env = [],
      ap_Cwd = [], ap_Terminal = False\<rparr>"
    by (simp add: toGRPCProcess_def p4_def sample_process_def)
  from a have a': "StartProcess s1 sample_start =
      (Return (Some \<lparr>ap_ID = ''p4'', ap_Pid = 1, ap_Args = [], ap_Env = [],
      ap_Cwd = [], ap_Terminal = False\<rparr>, None), [Exec_StartProcess c1 opts, Monitor c1 p4])"
    by (simp only: g)
  from a' b c show ?thesis
    unfolding s1_def s0_def opts_def p4_def by (intro conjI)
qed

text \<open>
  C8. \<open>toGRPCContainer\<close> maps the statuses \<open>created\<close>, \<open>running\<close>, \<open>stopped\<close> and
  \<open>paused\<close> to the wire values of the same names; for any other status it leaves the
  wire status at its zero value. It is a total function: no status makes it fail.
\<close>

theorem toGRPCContainer_status:
  "(Container_Status c = ''created'' \<longrightarrow> ac_Status (toGRPCContainer K c) = Status_CREATED K) \<and>
   (Container_Status c = ''running'' \<longrightarrow> ac_Status (toGRPCContainer K c) = Status_RUNNING K) \<and>
   (Container_Status c = ''stopped'' \<longrightarrow> ac_Status (toGRPCContainer K c) = Status_STOPPED K) \<and>
   (Container_Status c = ''paused'' \<longrightarrow> ac_Status (toGRPCContainer K c) = Status_PAUSED K) \<and>
   (Container_Status c \<notin> {''created'', ''running'', ''stopped'', ''paused''} \<longrightarrow>
      ac_Status (toGRPCContainer K c) = 0)"
  by (simp add: toGRPCContainer_def)

theorem toGRPCContainer_status_witness:
  "ac_Status (toGRPCContainer K0 (sample_container ''a'' ''created'' [])) = 0 \<and>
   ac_Status (toGRPCContainer K0 (sample_container ''a'' ''running'' [])) = 1 \<and>
   ac_Status (toGRPCContainer K0 (sample_container ''a'' ''stopped'' [])) = 2 \<and>
   ac_Status (toGRPCContainer K0 (sample_container ''a'' ''paused'' [])) = 3 \<and>
   ac_Status (toGRPCContainer K0 (sample_container ''a'' ''deleted'' [])) = 0"
  using toGRPCContainer_status [of "sample_container ''a'' ''created'' []" K0]
    toGRPCContainer_status [of "sample_container ''a'' ''running'' []" K0]
    toGRPCContainer_status [of "sample_container ''a'' ''stopped'' []" K0]
    toGRPCContainer_status [of "sample_container ''a'' ''paused'' []" K0]
    toGRPCContainer_status [of "sample_container ''a'' ''deleted'' []" K0]
  by (simp add: sample_container_def K0_def)

text \<open>
  C9. \<open>New\<close> and \<open>Create\<close> index element 0 of a container's process list without a
  check: \<open>New\<close> panics exactly when \<open>List\<close> succeeds with some container that has no
  process, and \<open>Create\<close> panics exactly when the executor's \<open>Create\<close> succeeds with a
  container that has no process.
\<close>

theorem index_zero_panics:
  "(fst (New K ex) = Panic \<longleftrightarrow>
      (\<exists>cs. ex_List ex = Inr cs \<and> (\<exists>c\<in>set cs. Processes c = []))) \<and>
   (fst (Create K s r) = Panic \<longleftrightarrow>
      (\<exists>c. ex_Create (Service_executor s) (ccr_ID r)
              \<lparr>co_Bundle = ccr_BundlePath r, co_Console = ccr_Console r,
               co_Stdin = ccr_Stdin r, co_Stdout = ccr_Stdout r, co_Stderr = ccr_Stderr r\<rparr>
            = Inr c \<and> Processes c = []))"
proof
  show "fst (New K ex) = Panic \<longleftrightarrow>
      (\<exists>cs. ex_List ex = Inr cs \<and> (\<exists>c\<in>set cs. Processes c = []))"
    by (cases "ex_List ex") (simp_all add: New_outcome Processes_def)
next
  show "fst (Create K s r) = Panic \<longleftrightarrow>
      (\<exists>c. ex_Create (Service_executor s) (ccr_ID r)
              \<lparr>co_Bundle = ccr_BundlePath r, co_Console = ccr_Console r,
               co_Stdin = ccr_Stdin r, co_Stdout = ccr_Stdout r, co_Stderr = ccr_Stderr r\<rparr>
            = Inr c \<and> Processes c = [])"
    by (simp add: Create_def Let_def split: sum.splits list.splits)
qed

theorem index_zero_panics_witness:
  "fst (New K0 (sample_executor [c1, c0, c2])) = Panic \<and>
   fst (New K0 (sample_executor [c1, c2])) \<noteq> Panic \<and>
   fst (Create K0 \<lparr>Service_executor =
          (sample_executor [])\<lparr>ex_Create := (\<lambda>cid opts. Inr c0)\<rparr>\<rparr> sample_create) = Panic \<and>
   fst (Create K0 \<lparr>Service_executor = sample_executor []\<rparr> sample_create) \<noteq> Panic"
  using index_zero_panics [of K0 "sample_executor [c1, c0, c2]"]
    index_zero_panics [of K0 "sample_executor [c1, c2]"]
    index_zero_panics [of K0 _ "\<lparr>Service_executor =
          (sample_executor [])\<lparr>ex_Create := (\<lambda>cid opts. Inr c0)\<rparr>\<rparr>" sample_create]
    index_zero_panics [of K0 _ "\<lparr>Service_executor = sample_executor []\<rparr>" sample_create]
  by (simp add: sample_defs Processes_def)

section \<open>Properties of the chain functions\<close>

text \<open>
  C10. \<open>ChainID\<close> leaves every array that existed before the call as it was, so the
  elements of its input slice are unchanged, and it returns the empty digest for an empty
  input. \<open>ChainIDs\<close> leaves element 0 of a non-empty input unchanged, and returns an
  input of length less than two with the store unchanged.
\<close>

theorem ChainID_copies_ChainIDs_keeps_head:
  "take (length h) (snd (ChainID F h s)) = h \<and>
   (valid h s \<longrightarrow> elems (snd (ChainID F h s)) s = elems h s) \<and>
   (sl_len s = 0 \<longrightarrow> fst (ChainID F h s) = []) \<and>
   (valid h s \<and> 0 < sl_len s \<longrightarrow> rd (fst (ChainIDs F h s)) s 0 = rd h s 0) \<and>
   (sl_len s < 2 \<longrightarrow> ChainIDs F h s = (h, s))"
proof (intro conjI impI)
  show "take (length h) (snd (ChainID F h s)) = h" by (rule ChainID_keeps_store)
next
  assume v: "valid h s"
  then have "sl_arr s < length h" by (simp add: valid_def)
  with ChainID_keeps_store [of h F s]
  have "snd (ChainID F h s) ! sl_arr s = h ! sl_arr s"
    by (metis nth_take)
  then show "elems (snd (ChainID F h s)) s = elems h s" by (simp add: elems_def)
next
  assume "sl_len s = 0"
  then show "fst (ChainID F h s) = []" by (simp add: ChainID_def make_def Let_def)
next
  assume "valid h s \<and> 0 < sl_len s"
  show "rd (fst (ChainIDs F h s)) s 0 = rd h s 0"
    by (simp add: rd_def ChainIDs_prefix_cells)
next
  assume "sl_len s < 2"
  then show "ChainIDs F h s = (h, s)" by (subst ChainIDs.simps) simp
qed

theorem ChainID_copies_ChainIDs_keeps_head_witness:
  "take (length abc) (snd (ChainID H0 abc (window 0 3))) = abc \<and>
   elems (snd (ChainID H0 abc (window 0 3))) (window 0 3) = [''A'', ''B'', ''C''] \<and>
   fst (ChainID H0 abc (window 0 0)) = [] \<and>
   rd (fst (ChainIDs H0 abc (window 0 3))) (window 0 3) 0 = ''A'' \<and>
   ChainIDs H0 abc (window 2 1) = (abc, window 2 1)"
  using ChainID_copies_ChainIDs_keeps_head [of abc H0 "window 0 3"]
    ChainID_copies_ChainIDs_keeps_head [of abc H0 "window 0 0"]
    ChainID_copies_ChainIDs_keeps_head [of abc H0 "window 2 1"]
  by (simp add: valid_def abc_def window_def elems_def rd_def)

end
